theory Spec2Isabelle
  imports Complex_Main "HOL-Library.Word" "HOL-Library.Multiset"
begin

section \<open>Data model of \<open>analyze_color\<close>\<close>

text \<open>
  The routine \<open>analyze_color(rgb_img, mask, bins, hist_plot_type)\<close> of
  \<open>plantcv/plantcv/analyze_color.py\<close> is embedded stage by stage, in the order of
  its source lines. Images are numpy arrays of unsigned bytes: a shape and the
  elements in C order. Python's \<open>int\<close> is \<open>int\<close>, a \<open>str\<close> is a \<open>string\<close>,
  \<open>None\<close> is \<open>None\<close>.
\<close>

type_synonym uint8 = "8 word"

type_synonym pixel = "uint8 \<times> uint8 \<times> uint8"

record ndarray =
  shape :: "nat list"
  elems :: "uint8 list"

text \<open>
  Every way the call can raise is a constructor. \<open>fatal_error\<close> raises at two places:
  the dimensionality check (\<open>InvalidInput\<close>, line 37) and the plot-type check
  (\<open>InvalidArgument\<close>, line 65), each with its message. \<open>ZeroDivisionError\<close> is
  Python's, from \<open>256 / bins\<close>; \<open>KeyError\<close> is what \<open>dict.__delitem__\<close> raises;
  \<open>LibraryError\<close> stands for an exception of OpenCV or of tuple unpacking on arrays
  it cannot process.
\<close>

datatype error =
    InvalidInput string
  | InvalidArgument string
  | ZeroDivisionError
  | KeyError
  | LibraryError

text \<open>
  The keys \<open>"b"\<close>, \<open>"g"\<close>, ... of the dictionaries \<open>norm_channels\<close> and
  \<open>histograms\<close>.
\<close>

datatype chan = B | G | R | L | M | Y | H | S | V

text \<open>
  The two colour conversions of OpenCV work pixel by pixel; their arithmetic is not part
  of the repository, so they are parameters of the model.
\<close>

record colorconv =
  bgr2lab :: "pixel \<Rightarrow> pixel"
  bgr2hsv :: "pixel \<Rightarrow> pixel"

text \<open>
  \<open>scipy.stats.circmean\<close> and \<open>circstd\<close> are floating-point routines outside the
  repository: a result of theirs is kept as the call that produced it, the sample
  sequence and the period \<open>high\<close>. \<open>numpy.median\<close> of bytes is exact: the middle
  element, or the mean of the two middle elements, and \<open>nan\<close> on an empty sequence.
\<close>

datatype stat =
    CircMean "uint8 list" nat
  | CircStd "uint8 list" nat
  | Float rat
  | NaN

datatype pyval =
    VStr string
  | VInt int
  | VInts "int list"
  | VHist "nat list"
  | VStat stat

text \<open>
  A plotnine figure: the melted data frame (one series of pixel counts per selected
  column), the \<open>bins\<close> column, the breaks of the x axis and the manual colour scale.
\<close>

record plot =
  series :: "(string \<times> nat list) list"
  bin_axis :: "int list"
  x_breaks :: "int list"
  colors :: "string list"

text \<open>
  The process-wide state: \<open>params.device\<close>, \<open>params.debug\<close>,
  \<open>params.debug_outdir\<close>, \<open>outputs.measurements\<close> (category, then field),
  \<open>outputs.images\<close>, and the two debug sinks (figures saved under a directory with
  the device number in the file name, figures printed).
\<close>

record pcv_state =
  device :: int
  debug :: "string option"
  debug_outdir :: string
  measurements :: "string \<rightharpoonup> (string \<rightharpoonup> pyval)"
  images :: "plot list list"
  saved :: "(string \<times> int \<times> plot) list"
  printed :: "plot list"

section \<open>Channel extraction (lines 39 to 56)\<close>

fun pixels :: "uint8 list \<Rightarrow> pixel list" where
  "pixels (b # g # r # rest) = (b, g, r) # pixels rest"
| "pixels _ = []"

text \<open>
  \<open>cv2.bitwise_and(rgb_img, rgb_img, mask=mask)\<close> keeps a pixel where the mask is
  non-zero and gives a zero pixel elsewhere. OpenCV raises unless the mask is a
  single-channel byte image of the image's size (a one-dimensional mask of \<open>n\<close> bytes
  is read as \<open>n\<close> rows of one column); unpacking \<open>cv2.split\<close> into
  \<open>b, g, r\<close> raises unless there are exactly three channels, and \<open>cv2.cvtColor\<close>
  raises on an empty image.
\<close>

definition bitwise_and_mask :: "ndarray \<Rightarrow> ndarray \<Rightarrow> error + pixel list" where
  "bitwise_and_mask rgb_img msk =
     (case shape rgb_img of
        [rows, cols, c] \<Rightarrow>
          if c = 3 \<and> 0 < rows \<and> 0 < cols
             \<and> (shape msk = [rows, cols] \<or> shape msk = [rows, cols, 1]
                  \<or> (cols = 1 \<and> shape msk = [rows]))
             \<and> length (elems rgb_img) = rows * cols * 3
             \<and> length (elems msk) = rows * cols
          then Inr (map2 (\<lambda>p m. if m \<noteq> 0 then p else (0, 0, 0))
                      (pixels (elems rgb_img)) (elems msk))
          else Inl LibraryError
      | _ \<Rightarrow> Inl LibraryError)"

definition split_channels :: "colorconv \<Rightarrow> ndarray \<Rightarrow> ndarray \<Rightarrow> error + (chan \<Rightarrow> uint8 list)" where
  "split_channels cv rgb_img msk =
     (case bitwise_and_mask rgb_img msk of
        Inl e \<Rightarrow> Inl e
      | Inr masked \<Rightarrow>
          let lab = map (bgr2lab cv) masked;
              hsv = map (bgr2hsv cv) masked
          in Inr (\<lambda>c. case c of
                B \<Rightarrow> map fst masked
              | G \<Rightarrow> map (fst \<circ> snd) masked
              | R \<Rightarrow> map (snd \<circ> snd) masked
              | L \<Rightarrow> map fst lab
              | M \<Rightarrow> map (fst \<circ> snd) lab
              | Y \<Rightarrow> map (snd \<circ> snd) lab
              | H \<Rightarrow> map fst hsv
              | S \<Rightarrow> map (fst \<circ> snd) hsv
              | V \<Rightarrow> map (snd \<circ> snd) hsv))"

text \<open>
  \<open>np.divide(x, 256 / bins).astype(np.uint8)\<close>: the quotient \<open>x * bins / 256\<close>,
  truncated towards zero and cut to a byte (for more than 256 bins the truncated
  quotient can exceed a byte and is taken modulo 256). The quotient is taken exactly
  here; numpy divides by the rounded double \<open>256 / bins\<close>. The two agree whenever
  \<open>bins\<close> is a power of two, as in every sample run below, and differ at a handful of
  other inputs: with 186 bins (also 198, 210, 234, 246) the value 128 goes to 92 in numpy
  and to 93 here. No statement below depends on the quantized value at such an input.
\<close>

definition quantize :: "int \<Rightarrow> uint8 \<Rightarrow> uint8" where
  "quantize bins x =
     (let q = uint x * bins
      in word_of_int (if 0 \<le> q then q div 256 else - ((- q) div 256)))"

definition norm_channels :: "int \<Rightarrow> (chan \<Rightarrow> uint8 list) \<Rightarrow> chan \<Rightarrow> uint8 list" where
  "norm_channels bins raw = (\<lambda>c. map (quantize bins) (raw c))"

section \<open>Plot-type selection (lines 59 to 66)\<close>

definition upper_char :: "char \<Rightarrow> char" where
  "upper_char c =
     (case map_of (zip ''abcdefghijklmnopqrstuvwxyz'' ''ABCDEFGHIJKLMNOPQRSTUVWXYZ'') c of
        Some u \<Rightarrow> u
      | None \<Rightarrow> c)"

text \<open>
  \<open>str.upper\<close> on strings of one-byte characters. Outside ASCII a character of this
  range has no ASCII upper-case form, so membership in the keys of \<open>hist_types\<close> is as in
  Python. A string with a code point beyond one byte is outside the model (Python's
  upper-case form of U+017F, the long s, is \<open>S\<close>).
\<close>

definition upper :: "string \<Rightarrow> string" where
  "upper s = map upper_char s"

definition hist_types :: "string \<rightharpoonup> chan list" where
  "hist_types =
     [''ALL'' \<mapsto> [B, G, R, L, M, Y, H, S, V],
      ''RGB'' \<mapsto> [B, G, R],
      ''LAB'' \<mapsto> [L, M, Y],
      ''HSV'' \<mapsto> [H, S, V]]"

definition bad_plot_type :: "string option \<Rightarrow> bool" where
  "bad_plot_type hist_plot_type =
     (case hist_plot_type of None \<Rightarrow> False | Some t \<Rightarrow> hist_types (upper t) = None)"

definition plot_type_message :: "string \<Rightarrow> string" where
  \<open>plot_type_message t =
     ''The histogram plot type was '' @ t @
     '', but can only be one of the following: None, "all", "rgb", "lab", or "hsv"!''\<close>

section \<open>Histograms (lines 67 to 99)\<close>

text \<open>
  \<open>cv2.calcHist([img], [0], mask, [histSize], [lo, hi])\<close> on a byte image, with
  uniform bins, as OpenCV documents it: \<open>lo\<close> is the inclusive lower boundary of bin
  0 and \<open>hi\<close> the exclusive upper boundary of the last bin; an element outside
  \<open>[lo, hi)\<close> is not counted, and only elements with a non-zero mask element are.
  The table OpenCV builds sends a value \<open>x\<close> to bin
  \<open>floor ((x - lo) * histSize / (hi - lo))\<close> and counts it when that index is one of
  the \<open>histSize\<close> bins. The index is taken exactly here, which is what the documented
  boundaries describe.
  OpenCV raises on a histogram size that is not positive, on an empty range and on a
  mask of another size than the image.
\<close>

definition bin_index :: "int \<Rightarrow> int \<Rightarrow> int \<Rightarrow> uint8 \<Rightarrow> nat option" where
  "bin_index histSize lo hi x =
     (let idx = ((uint x - lo) * histSize) div (hi - lo)
      in if 0 \<le> idx \<and> idx < histSize then Some (nat idx) else None)"

definition count_pixel :: "int \<Rightarrow> int \<Rightarrow> int \<Rightarrow> uint8 \<times> uint8 \<Rightarrow> nat list \<Rightarrow> nat list" where
  "count_pixel histSize lo hi xm hist =
     (if snd xm \<noteq> 0
      then (case bin_index histSize lo hi (fst xm) of
              Some i \<Rightarrow> hist[i := hist ! i + 1]
            | None \<Rightarrow> hist)
      else hist)"

definition calcHist :: "uint8 list \<Rightarrow> uint8 list \<Rightarrow> int \<Rightarrow> int \<Rightarrow> int \<Rightarrow> error + nat list" where
  "calcHist img msk histSize lo hi =
     (if 0 < histSize \<and> lo < hi \<and> length msk = length img
      then Inr (fold (count_pixel histSize lo hi) (zip img msk) (replicate (nat histSize) 0))
      else Inl LibraryError)"

text \<open>
  The dictionary \<open>histograms\<close>: one \<open>calcHist\<close> per channel, in the order of the
  dictionary display, each with range \<open>[0, bins - 1]\<close>; the first call that raises ends
  the evaluation.
\<close>

fun calc_hists :: "chan list \<Rightarrow> (chan \<Rightarrow> uint8 list) \<Rightarrow> uint8 list \<Rightarrow> int \<Rightarrow> error + (chan \<Rightarrow> nat list)" where
  "calc_hists [] nch msk bins = Inr (\<lambda>_. [])"
| "calc_hists (c # cs) nch msk bins =
     (case calcHist (nch c) msk bins 0 (bins - 1) of
        Inl e \<Rightarrow> Inl e
      | Inr hc \<Rightarrow>
          (case calc_hists cs nch msk bins of
             Inl e \<Rightarrow> Inl e
           | Inr hist \<Rightarrow> Inr (hist(c := hc))))"

definition all_chans :: "chan list" where
  "all_chans = [B, G, R, L, M, Y, H, S, V]"

definition histograms :: "(chan \<Rightarrow> uint8 list) \<Rightarrow> uint8 list \<Rightarrow> int \<Rightarrow> error + (chan \<Rightarrow> nat list)" where
  "histograms nch msk bins = calc_hists all_chans nch msk bins"

text \<open>
  The entries \<open>"label"\<close> and \<open>"graph_color"\<close> of the dictionary; the routine reads
  neither of them again.
\<close>

definition label :: "chan \<Rightarrow> string" where
  "label c = (case c of
       B \<Rightarrow> ''blue'' | G \<Rightarrow> ''green'' | R \<Rightarrow> ''red''
     | L \<Rightarrow> ''lightness'' | M \<Rightarrow> ''green-magenta'' | Y \<Rightarrow> ''blue-yellow''
     | H \<Rightarrow> ''hue'' | S \<Rightarrow> ''saturation'' | V \<Rightarrow> ''value'')"

definition graph_color :: "chan \<Rightarrow> string" where
  "graph_color c = (case c of
       B \<Rightarrow> ''blue'' | G \<Rightarrow> ''forestgreen'' | R \<Rightarrow> ''red''
     | L \<Rightarrow> ''dimgray'' | M \<Rightarrow> ''magenta'' | Y \<Rightarrow> ''yellow''
     | H \<Rightarrow> ''blueviolet'' | S \<Rightarrow> ''cyan'' | V \<Rightarrow> ''orange'')"

section \<open>The histogram figure (lines 101 to 154)\<close>

definition dataset :: "(chan \<Rightarrow> nat list) \<Rightarrow> (string \<times> nat list) list" where
  "dataset hist =
     [(''blue'', hist B), (''green'', hist G), (''red'', hist R),
      (''lightness'', hist L), (''green-magenta'', hist M), (''blue-yellow'', hist Y),
      (''hue'', hist H), (''saturation'', hist S), (''value'', hist V)]"

definition melt :: "(string \<times> nat list) list \<Rightarrow> string list \<Rightarrow> (string \<times> nat list) list" where
  "melt ds value_vars = List.map_filter (\<lambda>n. map_option (Pair n) (map_of ds n)) value_vars"

text \<open>\<open>list(range(0, stop, step))\<close> for a positive step.\<close>

definition py_range :: "int \<Rightarrow> int \<Rightarrow> int list" where
  "py_range stop step = map (\<lambda>k. k * step) [0..(stop - 1) div step]"

definition ggplot :: "(string \<times> nat list) list \<Rightarrow> int list \<Rightarrow> int \<Rightarrow> string list \<Rightarrow> plot" where
  "ggplot df binval bins palette =
     \<lparr>series = df, bin_axis = binval, x_breaks = py_range bins 25, colors = palette\<rparr>"

definition make_plots :: "string option \<Rightarrow> (string \<times> nat list) list \<Rightarrow> int list \<Rightarrow> int \<Rightarrow> plot list" where
  "make_plots hist_plot_type ds binval bins =
     (case hist_plot_type of
        None \<Rightarrow> []
      | Some t \<Rightarrow>
          if upper t = ''RGB'' then
            [ggplot (melt ds [''blue'', ''green'', ''red'']) binval bins
               [''blue'', ''green'', ''red'']]
          else if upper t = ''LAB'' then
            [ggplot (melt ds [''lightness'', ''green-magenta'', ''blue-yellow'']) binval bins
               [''yellow'', ''magenta'', ''dimgray'']]
          else if upper t = ''HSV'' then
            [ggplot (melt ds [''hue'', ''saturation'', ''value'']) binval bins
               [''blueviolet'', ''cyan'', ''orange'']]
          else if upper t = ''ALL'' then
            [ggplot (melt ds [''blue'', ''green'', ''red'', ''lightness'', ''green-magenta'',
                              ''blue-yellow'', ''hue'', ''saturation'', ''value'']) binval bins
               [''blue'', ''yellow'', ''green'', ''magenta'', ''blueviolet'',
                ''dimgray'', ''red'', ''cyan'', ''orange'']]
          else [])"

section \<open>Hue statistics (lines 156 to 182)\<close>

text \<open>
  \<open>Counter(h)\<close>: a dictionary in insertion order, a key with its number of
  occurrences.
\<close>

fun counter_add :: "'a \<Rightarrow> ('a \<times> nat) list \<Rightarrow> ('a \<times> nat) list" where
  "counter_add x [] = [(x, 1)]"
| "counter_add x ((k, n) # c) =
     (if k = x then (k, n + 1) # c else (k, n) # counter_add x c)"

definition Counter :: "'a list \<Rightarrow> ('a \<times> nat) list" where
  "Counter xs = fold counter_add xs []"

text \<open>
  Deleting from a \<open>dict\<close> raises \<open>KeyError\<close> on a missing key; \<open>Counter.__delitem__\<close>
  looks the key up first and calls the \<open>dict\<close> deletion only when it is there.
\<close>

definition dict_delitem :: "'a \<Rightarrow> ('a \<times> 'b) list \<Rightarrow> error + ('a \<times> 'b) list" where
  "dict_delitem k d =
     (if k \<in> set (map fst d) then Inr (filter (\<lambda>kv. fst kv \<noteq> k) d) else Inl KeyError)"

definition Counter_delitem :: "'a \<Rightarrow> ('a \<times> nat) list \<Rightarrow> error + ('a \<times> nat) list" where
  "Counter_delitem k c = (if k \<in> set (map fst c) then dict_delitem k c else Inr c)"

text \<open>The inner loop \<open>while j < list(ordered.values())[i]\<close>.\<close>

function append_while :: "'a \<Rightarrow> nat \<Rightarrow> nat \<Rightarrow> 'a list \<Rightarrow> 'a list" where
  "append_while k n j acc = (if j < n then append_while k n (j + 1) (acc @ [k]) else acc)"
  by pat_completeness auto
termination
  by (relation "measure (\<lambda>(k, n, j, acc). n - j)") auto

declare append_while.simps [simp del]

text \<open>The outer loop \<open>for i in range(len(ordered))\<close>, over the items in order.\<close>

fun expand :: "('a \<times> nat) list \<Rightarrow> 'a list \<Rightarrow> 'a list" where
  "expand [] acc = acc"
| "expand ((k, n) # items) acc = expand items (append_while k n 0 acc)"

definition temp_hue_list_hsv :: "uint8 list \<Rightarrow> error + uint8 list" where
  "temp_hue_list_hsv h =
     (case Counter_delitem 0 (Counter h) of
        Inl e \<Rightarrow> Inl e
      | Inr c \<Rightarrow> Inr (expand (sort_key fst c) []))"

text \<open>\<open>np.median\<close>, and the three calls of lines 179 to 182.\<close>

definition median :: "uint8 list \<Rightarrow> stat" where
  "median xs =
     (let s = sort xs; n = length s
      in if n = 0 then NaN
         else if odd n then Float (of_nat (unat (s ! (n div 2))))
         else Float ((of_nat (unat (s ! (n div 2 - 1))) + of_nat (unat (s ! (n div 2)))) / 2))"

definition statistics :: "uint8 list \<Rightarrow> stat \<times> stat \<times> stat" where
  "statistics xs = (CircMean xs 180, CircStd xs 180, median xs)"

definition hue_statistics :: "uint8 list \<Rightarrow> error + stat \<times> stat \<times> stat" where
  "hue_statistics h =
     (case temp_hue_list_hsv h of
        Inl e \<Rightarrow> Inl e
      | Inr xs \<Rightarrow> Inr (statistics xs))"

section \<open>Result assembly and the shared store (lines 184 to 252)\<close>

definition color_header :: "string list" where
  "color_header =
     [''HEADER_COLOR'', ''bin-number'', ''bin-values'', ''blue'', ''green'', ''red'',
      ''lightness'', ''green-magenta'', ''blue-yellow'', ''hue'', ''saturation'', ''value'',
      ''circular_mean'', ''circular_std'', ''median'']"

definition color_data :: "int \<Rightarrow> int list \<Rightarrow> (chan \<Rightarrow> nat list) \<Rightarrow> stat \<times> stat \<times> stat \<Rightarrow> pyval list" where
  "color_data bins bin_values hist st =
     [VStr ''COLOR_DATA'', VInt bins, VInts bin_values,
      VHist (hist B), VHist (hist G), VHist (hist R),
      VHist (hist L), VHist (hist M), VHist (hist Y),
      VHist (hist H), VHist (hist S), VHist (hist V),
      VStat (fst st), VStat (fst (snd st)), VStat (snd (snd st))]"

text \<open>
  Lines 225 to 229. \<open>hist_fig\<close> is bound whenever a plot type got through the check of
  line 64, so the figure list is not empty there.
\<close>

definition debug_output :: "string option \<Rightarrow> plot list \<Rightarrow> pcv_state \<Rightarrow> pcv_state" where
  "debug_output hist_plot_type analysis_images st =
     (case (hist_plot_type, analysis_images) of
        (Some t, hist_fig # _) \<Rightarrow>
          if debug st = Some ''print''
          then st\<lparr>saved := saved st @ [(debug_outdir st, device st, hist_fig)]\<rparr>
          else if debug st = Some ''plot''
          then st\<lparr>printed := printed st @ [hist_fig]\<rparr>
          else st
      | _ \<Rightarrow> st)"

definition color_fields :: "int \<Rightarrow> int list \<Rightarrow> (chan \<Rightarrow> nat list) \<Rightarrow> stat \<times> stat \<times> stat \<Rightarrow> (string \<times> pyval) list" where
  "color_fields bins bin_values hist st =
     [(''bin-number'', VInt bins), (''bin-values'', VInts bin_values),
      (''blue'', VHist (hist B)), (''green'', VHist (hist G)), (''red'', VHist (hist R)),
      (''lightness'', VHist (hist L)), (''green-magenta'', VHist (hist M)),
      (''blue-yellow'', VHist (hist Y)), (''hue'', VHist (hist H)),
      (''saturation'', VHist (hist S)), (''value'', VHist (hist V)),
      (''mean'', VStat (fst st)), (''standard-deviation'', VStat (fst (snd st))),
      (''median'', VStat (snd (snd st)))]"

text \<open>
  Lines 232 to 250: the category \<open>"color_data"\<close> is created when missing, the 14
  assignments follow in order, and the list of figures is appended to \<open>outputs.images\<close>.
\<close>

definition assign :: "string \<times> pyval \<Rightarrow> (string \<rightharpoonup> pyval) \<Rightarrow> (string \<rightharpoonup> pyval)" where
  "assign kv d = d(fst kv \<mapsto> snd kv)"

definition store_measurements :: "(string \<times> pyval) list \<Rightarrow> (string \<rightharpoonup> (string \<rightharpoonup> pyval)) \<Rightarrow> (string \<rightharpoonup> (string \<rightharpoonup> pyval))" where
  "store_measurements flds ms =
     (let ms1 = (if ms ''color_data'' = None then ms(''color_data'' \<mapsto> Map.empty) else ms)
      in case ms1 ''color_data'' of
           None \<Rightarrow> ms1
         | Some cd \<Rightarrow> ms1(''color_data'' \<mapsto> fold assign flds cd))"

section \<open>The routine\<close>

type_synonym result = "string list \<times> pyval list \<times> plot list"

definition analyze_color :: "colorconv \<Rightarrow> pcv_state \<Rightarrow> ndarray \<Rightarrow> ndarray \<Rightarrow> int \<Rightarrow> string option \<Rightarrow> (error + result) \<times> pcv_state" where
  "analyze_color cv st rgb_img msk bins hist_plot_type =
     (let st1 = st\<lparr>device := device st + 1\<rparr>
      in if length (shape rgb_img) < 3
         then (Inl (InvalidInput ''rgb_img must be an RGB image''), st1)
         else
           (case split_channels cv rgb_img msk of
              Inl e \<Rightarrow> (Inl e, st1)
            | Inr raw \<Rightarrow>
                if bins = 0 then (Inl ZeroDivisionError, st1)
                else if bad_plot_type hist_plot_type
                then (Inl (InvalidArgument (plot_type_message (case hist_plot_type of Some t \<Rightarrow> t | None \<Rightarrow> ''None''))), st1)
                else
                  (case histograms (norm_channels bins raw) (elems msk) bins of
                     Inl e \<Rightarrow> (Inl e, st1)
                   | Inr hist \<Rightarrow>
                       let binval = [0..bins - 1];
                           analysis_images = make_plots hist_plot_type (dataset hist) binval bins
                       in (case hue_statistics (raw H) of
                             Inl e \<Rightarrow> (Inl e, st1)
                           | Inr stats \<Rightarrow>
                               let st2 = debug_output hist_plot_type analysis_images st1;
                                   st3 = st2\<lparr>measurements :=
                                              store_measurements (color_fields bins binval hist stats)
                                                (measurements st2)\<rparr>;
                                   st4 = st3\<lparr>images := images st3 @ [analysis_images]\<rparr>
                               in (Inr (color_header, color_data bins binval hist stats, analysis_images),
                                   st4)))))"

section \<open>Closed forms and the specification's vocabulary\<close>

text \<open>
  The histogram a successful \<open>calcHist\<close> call of the routine returns, and the exit of a
  call that got through every check: the figure, the debug output and the two writes to
  the shared store.
\<close>

definition hist_of :: "uint8 list \<Rightarrow> uint8 list \<Rightarrow> int \<Rightarrow> nat list" where
  "hist_of img msk bins =
     fold (count_pixel bins 0 (bins - 1)) (zip img msk) (replicate (nat bins) 0)"

definition counted :: "int \<Rightarrow> int \<Rightarrow> int \<Rightarrow> uint8 \<times> uint8 \<Rightarrow> bool" where
  "counted n lo hi xm = (snd xm \<noteq> 0 \<and> bin_index n lo hi (fst xm) \<noteq> None)"

definition finish :: "pcv_state \<Rightarrow> int \<Rightarrow> string option \<Rightarrow> (chan \<Rightarrow> nat list) \<Rightarrow> stat \<times> stat \<times> stat \<Rightarrow> (error + result) \<times> pcv_state" where
  "finish st bins t hist stats =
     (let imgs = make_plots t (dataset hist) [0..bins - 1] bins;
          st2 = debug_output t imgs (st\<lparr>device := device st + 1\<rparr>)
      in (Inr (color_header, color_data bins [0..bins - 1] hist stats, imgs),
          st2\<lparr>measurements :=
                 store_measurements (color_fields bins [0..bins - 1] hist stats) (measurements st2),
              images := images st2 @ [imgs]\<rparr>))"

text \<open>
  The flattened hue channel \<open>h\<close> of line 157 and the quantized hue channel
  \<open>norm_channels["h"]\<close> of line 53, for a call whose channel extraction succeeds.
\<close>

definition flat_hue :: "colorconv \<Rightarrow> ndarray \<Rightarrow> ndarray \<Rightarrow> uint8 list" where
  "flat_hue cv rgb_img msk =
     (case split_channels cv rgb_img msk of Inl e \<Rightarrow> [] | Inr raw \<Rightarrow> raw H)"

definition quantized_hue :: "colorconv \<Rightarrow> ndarray \<Rightarrow> ndarray \<Rightarrow> int \<Rightarrow> uint8 list" where
  "quantized_hue cv rgb_img msk bins =
     (case split_channels cv rgb_img msk of Inl e \<Rightarrow> [] | Inr raw \<Rightarrow> norm_channels bins raw H)"

text \<open>
  The statistics algorithm in the specification's words: count each distinct value,
  drop the entry of value 0, write value \<open>v\<close> down \<open>count[v]\<close> times, and take
  the circular mean and standard deviation with period 180 and the median of that
  sequence.
\<close>

definition spec_hue_sequence :: "uint8 list \<Rightarrow> uint8 list" where
  "spec_hue_sequence h =
     concat (map (\<lambda>v. replicate (count_list h v) v) (sorted_list_of_set (set h - {0})))"

definition spec_statistics :: "uint8 list \<Rightarrow> pyval list" where
  "spec_statistics h =
     (let xs = spec_hue_sequence h
      in [VStat (CircMean xs 180), VStat (CircStd xs 180), VStat (median xs)])"

text \<open>The three statistics and the nine histograms among the returned values.\<close>

definition returned_statistics :: "error + result \<Rightarrow> pyval list" where
  "returned_statistics r =
     (case r of Inl e \<Rightarrow> [] | Inr (hdr, data, imgs) \<Rightarrow> drop 12 data)"

fun hist_entries :: "pyval list \<Rightarrow> nat list list" where
  "hist_entries [] = []"
| "hist_entries (VHist h # vs) = h # hist_entries vs"
| "hist_entries (v # vs) = hist_entries vs"

definition returned_histograms :: "error + result \<Rightarrow> nat list list" where
  "returned_histograms r =
     (case r of Inl e \<Rightarrow> [] | Inr (hdr, data, imgs) \<Rightarrow> hist_entries data)"

definition masked_in :: "ndarray \<Rightarrow> nat" where
  "masked_in msk = length (filter (\<lambda>m. m \<noteq> 0) (elems msk))"




text \<open>The field names written under \<open>"color_data"\<close>, in the order of the assignments.\<close>

definition store_keys :: "string list" where
  "store_keys =
     [''bin-number'', ''bin-values'', ''blue'', ''green'', ''red'', ''lightness'',
      ''green-magenta'', ''blue-yellow'', ''hue'', ''saturation'', ''value'',
      ''mean'', ''standard-deviation'', ''median'']"

section \<open>Sample inputs\<close>

text \<open>
  A conversion that agrees with OpenCV on the four pixels the sample images are made of
  (BGR order): white, pure blue, pure green and black, which is also what a masked-out
  pixel becomes. It is used by the sample runs only; every theorem with a variable
  conversion holds for all conversions.
\<close>

definition sample_cv :: colorconv where
  "sample_cv =
     \<lparr>bgr2lab = (\<lambda>p. if p = (255, 255, 255) then (255, 128, 128)
                     else if p = (255, 0, 0) then (82, 207, 20)
                     else if p = (0, 255, 0) then (224, 42, 211)
                     else (0, 128, 128)),
      bgr2hsv = (\<lambda>p. if p = (255, 255, 255) then (0, 0, 255)
                     else if p = (255, 0, 0) then (120, 255, 255)
                     else if p = (0, 255, 0) then (60, 255, 255)
                     else (0, 0, 0))\<rparr>"

definition st0 :: pcv_state where
  "st0 = \<lparr>device = 0, debug = None, debug_outdir = ''.'',
          measurements = [''shape_data'' \<mapsto> [''area'' \<mapsto> VInt 16]],
          images = [], saved = [], printed = []\<rparr>"

definition gray_img :: ndarray where
  "gray_img = \<lparr>shape = [2, 2], elems = [10, 20, 30, 40]\<rparr>"

definition white_img :: ndarray where
  "white_img = \<lparr>shape = [1, 1, 3], elems = [255, 255, 255]\<rparr>"

definition blue_img :: ndarray where
  "blue_img = \<lparr>shape = [1, 1, 3], elems = [255, 0, 0]\<rparr>"

definition full_mask :: ndarray where
  "full_mask = \<lparr>shape = [1, 1], elems = [255]\<rparr>"

definition dark_img :: ndarray where
  "dark_img = \<lparr>shape = [1, 2, 3], elems = [0, 0, 0, 255, 255, 255]\<rparr>"

definition leaf_img :: ndarray where
  "leaf_img = \<lparr>shape = [1, 2, 3], elems = [255, 0, 0, 0, 255, 0]\<rparr>"

definition pair_mask :: ndarray where
  "pair_mask = \<lparr>shape = [1, 2], elems = [255, 1]\<rparr>"

section \<open>Facts about the stages\<close>

subsection \<open>The debug output and error exits\<close>

lemma debug_output_device: "device (debug_output t imgs st) = device st"
  by (simp add: debug_output_def split: option.splits list.splits)

lemma debug_output_measurements: "measurements (debug_output t imgs st) = measurements st"
  by (simp add: debug_output_def split: option.splits list.splits)

lemma debug_output_images: "images (debug_output t imgs st) = images st"
  by (simp add: debug_output_def split: option.splits list.splits)

lemma analyze_color_error_state:
  "fst (analyze_color cv st rgb_img msk bins hist_plot_type) = Inl e \<Longrightarrow>
   snd (analyze_color cv st rgb_img msk bins hist_plot_type) = st\<lparr>device := device st + 1\<rparr>"
  by (simp add: analyze_color_def Let_def split: sum.splits if_splits)

subsection \<open>The two loops and the counter\<close>

lemma append_while_eq: "append_while k n j acc = acc @ replicate (n - j) k"
proof (induction k n j acc rule: append_while.induct)
  case (1 k n j acc)
  show ?case
  proof (cases "j < n")
    case True
    then have "n - j = Suc (n - (j + 1))" by simp
    then have "replicate (n - j) k = k # replicate (n - (j + 1)) k"
      by (simp only: replicate_Suc)
    with True 1 show ?thesis
      by (simp add: append_while.simps [of k n j acc])
  next
    case False
    then show ?thesis by (simp add: append_while.simps [of k n j acc])
  qed
qed

lemma expand_eq: "expand items acc = acc @ concat (map (\<lambda>kv. replicate (snd kv) (fst kv)) items)"
  by (induction items acc rule: expand.induct) (simp_all add: append_while_eq)

lemma counter_add_keys:
  "map fst (counter_add x c) = (if x \<in> set (map fst c) then map fst c else map fst c @ [x])"
  by (induction x c rule: counter_add.induct) auto

lemma counter_add_distinct: "distinct (map fst c) \<Longrightarrow> distinct (map fst (counter_add x c))"
  by (simp add: counter_add_keys)

lemma counter_add_key_set: "fst ` set (counter_add x c) = insert x (fst ` set c)"
proof -
  have "set (map fst (counter_add x c)) = insert x (set (map fst c))"
    by (auto simp: counter_add_keys)
  then show ?thesis by simp
qed

lemma counter_add_map_of:
  "map_of (counter_add x c) = (map_of c)(x \<mapsto> (case map_of c x of None \<Rightarrow> 1 | Some n \<Rightarrow> n + 1))"
  by (induction x c rule: counter_add.induct) (auto simp: fun_eq_iff)

lemma fold_counter_add_distinct:
  "distinct (map fst c) \<Longrightarrow> distinct (map fst (fold counter_add xs c))"
  by (induction xs arbitrary: c) (simp_all add: counter_add_distinct)

lemma fold_counter_add_keys:
  "fst ` set (fold counter_add xs c) = fst ` set c \<union> set xs"
  by (induction xs arbitrary: c) (simp_all add: counter_add_key_set)

lemma fold_counter_add_map_of:
  "map_of (fold counter_add xs c) k =
     (case map_of c k of
        None \<Rightarrow> if k \<in> set xs then Some (count_list xs k) else None
      | Some n \<Rightarrow> Some (n + count_list xs k))"
  by (induction xs arbitrary: c) (auto simp: counter_add_map_of split: option.splits)

lemma Counter_distinct: "distinct (map fst (Counter xs))"
  by (simp add: Counter_def fold_counter_add_distinct)

lemma Counter_keys: "fst ` set (Counter xs) = set xs"
  by (simp add: Counter_def fold_counter_add_keys)

lemma Counter_count: "(k, n) \<in> set (Counter xs) \<Longrightarrow> n = count_list xs k"
proof -
  assume "(k, n) \<in> set (Counter xs)"
  then have "map_of (Counter xs) k = Some n"
    using Counter_distinct [of xs] by simp
  then show ?thesis
    by (simp add: Counter_def fold_counter_add_map_of split: if_splits)
qed

text \<open>Deleting from a counter never raises: a missing key leaves the counter as it is.\<close>

lemma Counter_delitem_eq: "Counter_delitem k c = Inr (filter (\<lambda>kv. fst kv \<noteq> k) c)"
proof (cases "k \<in> set (map fst c)")
  case True
  then show ?thesis by (simp add: Counter_delitem_def dict_delitem_def)
next
  case False
  then have "filter (\<lambda>kv. fst kv \<noteq> k) c = c"
    by (auto simp: filter_id_conv)
  with False show ?thesis by (simp add: Counter_delitem_def)
qed

lemma sort_key_fst_items:
  assumes d: "distinct (map fst c)" and f: "\<forall>kv \<in> set c. snd kv = f (fst kv)"
  shows "sort_key fst c = map (\<lambda>k. (k, f k)) (sorted_list_of_set (set (map fst c)))"
proof -
  let ?ys = "sort_key fst c"
  have "\<forall>kv \<in> set ?ys. snd kv = f (fst kv)" using f by simp
  then have "map (\<lambda>kv. (fst kv, f (fst kv))) ?ys = ?ys"
    by (intro map_idI) (auto simp: prod_eq_iff)
  then have ys: "?ys = map (\<lambda>k. (k, f k)) (map fst ?ys)"
    by (simp add: comp_def)
  have "sorted (map fst ?ys)" by simp
  moreover have "distinct (map fst ?ys)"
    using d by (metis mset_sort mset_map mset_eq_imp_distinct_iff)
  moreover have "set (map fst ?ys) = set (map fst c)" by simp
  ultimately have "map fst ?ys = sorted_list_of_set (set (map fst c))"
    by (metis sorted_list_of_set.idem_if_sorted_distinct)
  with ys show ?thesis by simp
qed

text \<open>The source's counting, deleting, sorting and expanding computes the specification's sequence.\<close>

lemma temp_hue_list_hsv_spec: "temp_hue_list_hsv h = Inr (spec_hue_sequence h)"
proof -
  let ?c = "filter (\<lambda>kv. fst kv \<noteq> 0) (Counter h)"
  have d: "distinct (map fst ?c)"
    using Counter_distinct [of h] by (simp add: distinct_map_filter)
  have f: "\<forall>kv \<in> set ?c. snd kv = count_list h (fst kv)"
    using Counter_count [of _ _ h] by auto
  have k: "set (map fst ?c) = set h - {0}"
    using Counter_keys [of h] by (auto simp: image_iff)
  have "sort_key fst ?c = map (\<lambda>k. (k, count_list h k)) (sorted_list_of_set (set h - {0}))"
    using sort_key_fst_items [OF d f] k by simp
  then show ?thesis
    by (simp add: temp_hue_list_hsv_def Counter_delitem_eq expand_eq spec_hue_sequence_def comp_def)
qed

lemma sorted_concat_replicate:
  "sorted ks \<Longrightarrow> sorted (concat (map (\<lambda>v. replicate (f v) v) ks))"
  by (induction ks) (auto simp: sorted_append)

lemma count_concat_replicate:
  "distinct ks \<Longrightarrow>
   count (mset (concat (map (\<lambda>v. replicate (f v) v) ks))) x = (if x \<in> set ks then f x else 0)"
  by (induction ks) auto

text \<open>That sequence is the non-zero hue values in increasing order.\<close>

lemma spec_hue_sequence_sort: "spec_hue_sequence h = sort (filter (\<lambda>x. x \<noteq> 0) h)"
proof -
  let ?ks = "sorted_list_of_set (set h - {0})"
  have "count (mset (spec_hue_sequence h)) x = count (mset (filter (\<lambda>x. x \<noteq> 0) h)) x" for x
    using count_concat_replicate [of ?ks "count_list h" x]
    by (auto simp: spec_hue_sequence_def count_mset count_list_0_iff)
  then have "mset (spec_hue_sequence h) = mset (filter (\<lambda>x. x \<noteq> 0) h)"
    by (rule multiset_eqI)
  moreover have "sorted (spec_hue_sequence h)"
    by (simp add: spec_hue_sequence_def sorted_concat_replicate)
  ultimately show ?thesis
    by (simp add: properties_for_sort)
qed

lemma hue_statistics_eq: "hue_statistics h = Inr (statistics (spec_hue_sequence h))"
  by (simp add: hue_statistics_def temp_hue_list_hsv_spec)

subsection \<open>Channel extraction and histograms\<close>

lemma length_pixels: "length (pixels xs) = length xs div 3"
  by (induction xs rule: pixels.induct) simp_all

lemma bitwise_and_mask_error: "bitwise_and_mask rgb_img msk = Inl e \<Longrightarrow> e = LibraryError"
  by (auto simp: bitwise_and_mask_def split: list.splits if_splits)

lemma bitwise_and_mask_shape:
  "bitwise_and_mask rgb_img msk = Inr masked \<Longrightarrow>
   length (shape rgb_img) = 3 \<and> length masked = length (elems msk)"
  by (auto simp: bitwise_and_mask_def length_pixels split: list.splits if_splits)

lemma split_channels_error: "split_channels cv rgb_img msk = Inl e \<Longrightarrow> e = LibraryError"
  by (auto simp: split_channels_def Let_def dest: bitwise_and_mask_error split: sum.splits)

lemma split_channels_length:
  "split_channels cv rgb_img msk = Inr raw \<Longrightarrow> length (raw c) = length (elems msk)"
  by (cases c) (auto simp: split_channels_def Let_def dest: bitwise_and_mask_shape split: sum.splits)

lemma split_channels_dims:
  "split_channels cv rgb_img msk = Inr raw \<Longrightarrow> length (shape rgb_img) = 3"
  by (auto simp: split_channels_def Let_def dest: bitwise_and_mask_shape split: sum.splits)

lemma calcHist_error: "calcHist img msk n lo hi = Inl e \<Longrightarrow> e = LibraryError"
  by (auto simp: calcHist_def split: if_splits)

lemma calc_hists_error: "calc_hists cs nch msk bins = Inl e \<Longrightarrow> e = LibraryError"
  by (induction cs arbitrary: e) (auto dest: calcHist_error split: sum.splits)

lemma histograms_error: "histograms nch msk bins = Inl e \<Longrightarrow> e = LibraryError"
  by (simp add: histograms_def calc_hists_error)

lemma calcHist_ok:
  "2 \<le> bins \<Longrightarrow> length img = length msk \<Longrightarrow>
   calcHist img msk bins 0 (bins - 1) = Inr (hist_of img msk bins)"
  by (simp add: calcHist_def hist_of_def)

lemma calc_hists_ok:
  "2 \<le> bins \<Longrightarrow> \<forall>c. length (nch c) = length msk \<Longrightarrow>
   calc_hists cs nch msk bins = Inr (\<lambda>c. if c \<in> set cs then hist_of (nch c) msk bins else [])"
  by (induction cs) (auto simp: calcHist_ok fun_eq_iff)

lemma histograms_ok:
  "2 \<le> bins \<Longrightarrow> \<forall>c. length (nch c) = length msk \<Longrightarrow>
   histograms nch msk bins = Inr (\<lambda>c. hist_of (nch c) msk bins)"
proof -
  assume a: "2 \<le> bins" "\<forall>c. length (nch c) = length msk"
  have "c \<in> set all_chans" for c by (cases c) (simp_all add: all_chans_def)
  then show ?thesis by (simp add: histograms_def calc_hists_ok [OF a])
qed

lemma histograms_small_bins: "bins < 2 \<Longrightarrow> histograms nch msk bins = Inl LibraryError"
  by (simp add: histograms_def all_chans_def calcHist_def)

subsection \<open>What a histogram counts\<close>

lemma count_pixel_length: "length (count_pixel n lo hi xm hist) = length hist"
  by (simp add: count_pixel_def split: option.splits)

lemma fold_count_pixel_length: "length (fold (count_pixel n lo hi) ps hist) = length hist"
  by (induction ps arbitrary: hist) (simp_all add: count_pixel_length)

lemma hist_of_length: "length (hist_of img msk bins) = nat bins"
  by (simp add: hist_of_def fold_count_pixel_length)

lemma bin_index_less: "bin_index n lo hi x = Some i \<Longrightarrow> i < nat n"
  by (auto simp: bin_index_def Let_def split: if_splits)

text \<open>
  With the range \<open>[0, bins - 1]\<close> a quantized value below \<open>bins - 1\<close> falls into the
  bin of its own number, and the value \<open>bins - 1\<close> and every larger one fall outside.
\<close>

lemma bin_index_top:
  assumes "2 \<le> bins"
  shows "bin_index bins 0 (bins - 1) x = (if uint x < bins - 1 then Some (nat (uint x)) else None)"
proof -
  define d where "d = bins - 1"
  define u where "u = uint x"
  have d: "0 < d" and u: "0 \<le> u" using assms by (simp_all add: d_def u_def)
  have "u * bins = u + u * d" by (simp add: d_def algebra_simps)
  then have idx: "(u * bins) div d = u div d + u" using d by simp
  show ?thesis
  proof (cases "u < d")
    case True
    then have "u div d = 0" using u by simp
    with True idx show ?thesis
      using u by (simp add: bin_index_def Let_def flip: d_def u_def) (simp add: d_def)
  next
    case False
    then have "1 \<le> u div d"
      using d pos_imp_zdiv_pos_iff [of d u] by simp
    with False idx have "\<not> (u * bins) div d < bins" by (simp add: d_def)
    with False show ?thesis
      by (simp add: bin_index_def Let_def flip: d_def u_def)
  qed
qed

lemma sum_list_bump: "i < length xs \<Longrightarrow> sum_list (xs[i := Suc (xs ! i)]) = Suc (sum_list xs)"
  by (simp add: sum_list_update)

lemma count_pixel_sum:
  "length hist = nat n \<Longrightarrow>
   sum_list (count_pixel n lo hi xm hist) = sum_list hist + (if counted n lo hi xm then 1 else 0)"
proof (cases "counted n lo hi xm")
  case True
  then obtain i where i: "bin_index n lo hi (fst xm) = Some i" and m: "snd xm \<noteq> 0"
    by (auto simp: counted_def)
  assume "length hist = nat n"
  with bin_index_less [OF i] have "i < length hist" by simp
  with True i m show ?thesis
    by (simp add: count_pixel_def sum_list_bump)
next
  case False
  then show ?thesis
    by (auto simp: count_pixel_def counted_def split: option.splits)
qed

lemma fold_count_pixel_sum:
  "length hist = nat n \<Longrightarrow>
   sum_list (fold (count_pixel n lo hi) ps hist) = sum_list hist + length (filter (counted n lo hi) ps)"
  by (induction ps arbitrary: hist) (simp_all add: count_pixel_sum count_pixel_length)

text \<open>
  The entries of a histogram add up to the number of pixels with a non-zero mask element
  whose quantized value is below \<open>bins - 1\<close>; a pixel with mask element 0 is never
  counted, and neither is a pixel of the top quantized value \<open>bins - 1\<close>.
\<close>

lemma hist_of_sum:
  assumes "2 \<le> bins"
  shows "sum_list (hist_of img msk bins)
           = length (filter (\<lambda>xm. snd xm \<noteq> 0 \<and> uint (fst xm) < bins - 1) (zip img msk))"
proof -
  have "counted bins 0 (bins - 1) = (\<lambda>xm. snd xm \<noteq> 0 \<and> uint (fst xm) < bins - 1)"
    by (simp add: counted_def bin_index_top [OF assms] fun_eq_iff)
  then show ?thesis
    by (simp add: hist_of_def fold_count_pixel_sum)
qed

lemma count_pixel_nth:
  "bin_index n lo hi (fst xm) \<noteq> Some k \<Longrightarrow> count_pixel n lo hi xm hist ! k = hist ! k"
  by (auto simp: count_pixel_def split: option.splits)

text \<open>The last of the \<open>bins\<close> entries is always 0.\<close>

lemma hist_of_last_bin:
  assumes "2 \<le> bins"
  shows "hist_of img msk bins ! (nat bins - 1) = 0"
proof -
  define k where "k = nat bins - 1"
  have k: "int k = bins - 1"
    using assms by (simp add: k_def)
  have ne: "bin_index bins 0 (bins - 1) x \<noteq> Some k" for x
  proof
    assume "bin_index bins 0 (bins - 1) x = Some k"
    then have lt: "uint x < bins - 1" and eq: "k = nat (uint x)"
      using assms by (simp_all add: bin_index_top split: if_splits)
    have "int k = int (nat (uint x))"
      using eq by (rule arg_cong)
    with k lt show False by simp
  qed
  have "fold (count_pixel bins 0 (bins - 1)) ps hist ! k = hist ! k" for ps hist
    by (induction ps arbitrary: hist) (simp_all add: count_pixel_nth ne)
  moreover have "k < nat bins"
    using assms by (simp add: k_def)
  ultimately have "hist_of img msk bins ! k = 0"
    by (simp add: hist_of_def)
  then show ?thesis by (simp only: k_def)
qed

subsection \<open>When the call succeeds, and with what\<close>

lemma analyze_color_ok:
  assumes raw: "split_channels cv rgb_img msk = Inr raw"
    and bins: "2 \<le> bins" and t: "\<not> bad_plot_type t"
  shows "analyze_color cv st rgb_img msk bins t =
           finish st bins t (\<lambda>c. hist_of (norm_channels bins raw c) (elems msk) bins)
             (statistics (spec_hue_sequence (raw H)))"
proof -
  have len: "\<forall>c. length (norm_channels bins raw c) = length (elems msk)"
    using split_channels_length [OF raw] by (simp add: norm_channels_def)
  have dims: "\<not> length (shape rgb_img) < 3"
    using split_channels_dims [OF raw] by simp
  show ?thesis
    using bins t dims
    by (simp add: analyze_color_def raw histograms_ok [OF bins len] hue_statistics_eq
        finish_def Let_def)
qed

lemma analyze_color_Inr:
  assumes "fst (analyze_color cv st rgb_img msk bins t) = Inr res"
  shows "\<exists>raw. split_channels cv rgb_img msk = Inr raw \<and> 2 \<le> bins \<and> \<not> bad_plot_type t"
proof (cases "split_channels cv rgb_img msk")
  case (Inl e)
  with assms show ?thesis
    by (simp add: analyze_color_def Let_def split: if_splits)
next
  case (Inr raw)
  have "2 \<le> bins"
  proof (rule ccontr)
    assume "\<not> 2 \<le> bins"
    then have "histograms (norm_channels bins raw) (elems msk) bins = Inl LibraryError"
      by (simp add: histograms_small_bins)
    with assms Inr show False
      by (simp add: analyze_color_def Let_def split: if_splits)
  qed
  moreover have "\<not> bad_plot_type t"
    using assms Inr by (auto simp: analyze_color_def Let_def split: if_splits)
  ultimately show ?thesis using Inr by simp
qed

text \<open>The nine returned histograms of a successful call, channel by channel.\<close>

lemma returned_histograms_ok:
  assumes "split_channels cv rgb_img msk = Inr raw" and "2 \<le> bins" and "\<not> bad_plot_type t"
  shows "returned_histograms (fst (analyze_color cv st rgb_img msk bins t))
           = map (\<lambda>c. hist_of (norm_channels bins raw c) (elems msk) bins) all_chans"
  by (simp add: analyze_color_ok [OF assms] finish_def Let_def returned_histograms_def
      color_data_def all_chans_def)

lemma not_isl_obtain: "\<not> isl x \<Longrightarrow> \<exists>y. x = Inr y"
  by (cases x) simp_all

lemma finish_not_isl: "\<not> isl (fst (finish st bins t hist stats))"
  by (simp add: finish_def Let_def)

lemma returned_statistics_finish:
  "returned_statistics (fst (finish st bins t hist stats)) =
     [VStat (fst stats), VStat (fst (snd stats)), VStat (snd (snd stats))]"
  by (simp add: finish_def Let_def returned_statistics_def color_data_def)

subsection \<open>Plot types\<close>










lemma hist_types_dom:
  "hist_types K = None \<longleftrightarrow> K \<noteq> ''ALL'' \<and> K \<noteq> ''RGB'' \<and> K \<noteq> ''LAB'' \<and> K \<noteq> ''HSV''"
  by (simp add: hist_types_def)


lemma bad_plot_type_None: "\<not> bad_plot_type None"
  by (simp add: bad_plot_type_def)

lemma make_plots_None: "make_plots None ds binval bins = []"
  by (simp add: make_plots_def)

lemma make_plots_Some:
  "\<not> bad_plot_type (Some s) \<Longrightarrow> length (make_plots (Some s) ds binval bins) = 1"
  by (auto simp: make_plots_def bad_plot_type_def hist_types_dom)

subsection \<open>The shared store\<close>

lemma color_fields_zip:
  "color_fields bins bv hist stats = zip store_keys (tl (color_data bins bv hist stats))"
  by (simp add: color_fields_def color_data_def store_keys_def)

lemma store_measurements_other:
  "c \<noteq> ''color_data'' \<Longrightarrow> store_measurements flds ms c = ms c"
  by (simp add: store_measurements_def Let_def split: option.splits)

lemma store_measurements_color_data:
  "store_measurements flds ms ''color_data'' =
     Some (fold assign flds (case ms ''color_data'' of None \<Rightarrow> Map.empty | Some cd \<Rightarrow> cd))"
  by (simp add: store_measurements_def Let_def split: option.splits)

lemma fold_assign_notin:
  "k \<notin> fst ` set flds \<Longrightarrow> fold assign flds cd k = cd k"
  by (induction flds arbitrary: cd) (auto simp: assign_def)

lemma fold_assign_in:
  "distinct (map fst flds) \<Longrightarrow> (k, v) \<in> set flds \<Longrightarrow> fold assign flds cd k = Some v"
proof (induction flds arbitrary: cd)
  case Nil
  then show ?case by simp
next
  case (Cons kv flds)
  show ?case
  proof (cases "(k, v) = kv")
    case True
    then have kv: "kv = (k, v)" by simp
    with Cons.prems have "k \<notin> fst ` set flds" by force
    then have "fold assign flds (assign kv cd) k = assign kv cd k"
      by (rule fold_assign_notin)
    moreover have "assign kv cd k = Some v"
      by (simp add: kv assign_def)
    ultimately show ?thesis by simp
  next
    case False
    with Cons show ?thesis by simp
  qed
qed

lemma distinct_store_keys: "distinct store_keys"
  by (simp add: store_keys_def)

lemma length_store_keys: "length store_keys = 14"
  by (simp add: store_keys_def)

lemma length_color_data: "length (color_data bins bv hist stats) = 15"
  by (simp add: color_data_def)

subsection \<open>Sample runs\<close>

lemma run_white:
  "fst (analyze_color sample_cv st0 white_img full_mask 4 None) =
     Inr (color_header,
          [VStr ''COLOR_DATA'', VInt 4, VInts [0, 1, 2, 3],
           VHist [0, 0, 0, 0], VHist [0, 0, 0, 0], VHist [0, 0, 0, 0],
           VHist [0, 0, 0, 0], VHist [0, 0, 1, 0], VHist [0, 0, 1, 0],
           VHist [1, 0, 0, 0], VHist [1, 0, 0, 0], VHist [0, 0, 0, 0],
           VStat (CircMean [] 180), VStat (CircStd [] 180), VStat NaN],
          [])"
  by code_simp

lemma run_blue:
  "fst (analyze_color sample_cv st0 blue_img full_mask 4 None) =
     Inr (color_header,
          [VStr ''COLOR_DATA'', VInt 4, VInts [0, 1, 2, 3],
           VHist [0, 0, 0, 0], VHist [1, 0, 0, 0], VHist [1, 0, 0, 0],
           VHist [0, 1, 0, 0], VHist [0, 0, 0, 0], VHist [1, 0, 0, 0],
           VHist [0, 1, 0, 0], VHist [0, 0, 0, 0], VHist [0, 0, 0, 0],
           VStat (CircMean [120] 180), VStat (CircStd [120] 180), VStat (Float 120)],
          [])"
  by code_simp

lemma run_dark:
  "fst (analyze_color sample_cv st0 dark_img pair_mask 4 None) =
     Inr (color_header,
          [VStr ''COLOR_DATA'', VInt 4, VInts [0, 1, 2, 3],
           VHist [1, 0, 0, 0], VHist [1, 0, 0, 0], VHist [1, 0, 0, 0],
           VHist [1, 0, 0, 0], VHist [0, 0, 2, 0], VHist [0, 0, 2, 0],
           VHist [2, 0, 0, 0], VHist [2, 0, 0, 0], VHist [1, 0, 0, 0],
           VStat (CircMean [] 180), VStat (CircStd [] 180), VStat NaN],
          [])"
  by code_simp

lemma run_leaf_rgb:
  "fst (analyze_color sample_cv st0 leaf_img pair_mask 4 (Some ''rgb'')) =
     Inr (color_header,
          [VStr ''COLOR_DATA'', VInt 4, VInts [0, 1, 2, 3],
           VHist [1, 0, 0, 0], VHist [1, 0, 0, 0], VHist [2, 0, 0, 0],
           VHist [0, 1, 0, 0], VHist [1, 0, 0, 0], VHist [1, 0, 0, 0],
           VHist [1, 1, 0, 0], VHist [0, 0, 0, 0], VHist [0, 0, 0, 0],
           VStat (CircMean [60, 120] 180), VStat (CircStd [60, 120] 180), VStat (Float 90)],
          [\<lparr>series = [(''blue'', [1, 0, 0, 0]), (''green'', [1, 0, 0, 0]), (''red'', [2, 0, 0, 0])],
            bin_axis = [0, 1, 2, 3], x_breaks = [0],
            colors = [''blue'', ''green'', ''red'']\<rparr>])"
  by code_simp

lemma run_leaf_hsv:
  "fst (analyze_color sample_cv st0 leaf_img pair_mask 2 (Some ''Hsv'')) =
     Inr (color_header,
          [VStr ''COLOR_DATA'', VInt 2, VInts [0, 1],
           VHist [1, 0], VHist [1, 0], VHist [2, 0],
           VHist [1, 0], VHist [1, 0], VHist [1, 0],
           VHist [2, 0], VHist [0, 0], VHist [0, 0],
           VStat (CircMean [60, 120] 180), VStat (CircStd [60, 120] 180), VStat (Float 90)],
          [\<lparr>series = [(''hue'', [2, 0]), (''saturation'', [0, 0]), (''value'', [0, 0])],
            bin_axis = [0, 1], x_breaks = [0],
            colors = [''blueviolet'', ''cyan'', ''orange'']\<rparr>])"
  by code_simp

lemma run_gray:
  "fst (analyze_color sample_cv st0 gray_img full_mask 4 (Some ''rgb'')) =
     Inl (InvalidInput ''rgb_img must be an RGB image'')"
  by code_simp

lemma leaf_extraction: "\<not> isl (split_channels sample_cv leaf_img pair_mask)"
  by code_simp

lemma dark_extraction: "\<not> isl (split_channels sample_cv dark_img pair_mask)"
  by code_simp

section \<open>The claims\<close>

text \<open>
  C1. Claimed: each of the nine returned histograms has \<open>bins\<close> entries, all
  non-negative, whose sum is the number of masked-in pixels, and masked-out pixels never
  contribute. The routine breaks the sum: the range \<open>[0, bins - 1]\<close> it passes to
  \<open>calcHist\<close> ends one short, so a pixel of the top quantized value \<open>bins - 1\<close> is in
  no bin (\<open>hist_of_sum\<close>, \<open>hist_of_last_bin\<close>; the lengths are right,
  \<open>hist_of_length\<close>). On a single white pixel, masked in, with 4 bins: one masked-in
  pixel, and the blue, green, red and lightness histograms are all zero.
\<close>

theorem white_pixel_in_no_bin:
  "masked_in full_mask = 1
   \<and> returned_histograms (fst (analyze_color sample_cv st0 white_img full_mask 4 None))
       = [[0, 0, 0, 0], [0, 0, 0, 0], [0, 0, 0, 0], [0, 0, 0, 0], [0, 0, 1, 0],
          [0, 0, 1, 0], [1, 0, 0, 0], [1, 0, 0, 0], [0, 0, 0, 0]]
   \<and> map sum_list (returned_histograms (fst (analyze_color sample_cv st0 white_img full_mask 4 None)))
       = [0, 0, 0, 0, 1, 1, 1, 1, 0]"
proof -
  have a: "masked_in full_mask = 1"
    by (simp add: masked_in_def full_mask_def)
  have b: "returned_histograms (fst (analyze_color sample_cv st0 white_img full_mask 4 None))
       = [[0, 0, 0, 0], [0, 0, 0, 0], [0, 0, 0, 0], [0, 0, 0, 0], [0, 0, 1, 0],
          [0, 0, 1, 0], [1, 0, 0, 0], [1, 0, 0, 0], [0, 0, 0, 0]]"
    by (simp add: run_white returned_histograms_def)
  show ?thesis by (simp add: a b)
qed

text \<open>
  C2, as amended. On every successful call the three returned statistics are the
  specification's algorithm (count the values, drop the count of value 0, write each
  value down as often as it was counted, then the circular mean and standard deviation
  with period 180 and the median) applied to the hue channel of the masked HSV image as
  it is, before quantization.
\<close>

theorem statistics_of_unquantized_hue:
  assumes "\<not> isl (fst (analyze_color cv st rgb_img msk bins hist_plot_type))"
  shows "returned_statistics (fst (analyze_color cv st rgb_img msk bins hist_plot_type))
           = spec_statistics (flat_hue cv rgb_img msk)"
proof -
  obtain res where "fst (analyze_color cv st rgb_img msk bins hist_plot_type) = Inr res"
    using assms not_isl_obtain by blast
  then obtain raw where raw: "split_channels cv rgb_img msk = Inr raw" and b: "2 \<le> bins"
    and t: "\<not> bad_plot_type hist_plot_type"
    using analyze_color_Inr by blast
  show ?thesis
    by (simp add: analyze_color_ok [OF raw b t] returned_statistics_finish
        spec_statistics_def flat_hue_def raw statistics_def Let_def)
qed

text \<open>A successful call on a blue pixel (hue 120) returns the statistics of the sequence \<open>[120]\<close>.\<close>

theorem statistics_of_unquantized_hue_witness:
  "\<not> isl (fst (analyze_color sample_cv st0 blue_img full_mask 4 None))
   \<and> returned_statistics (fst (analyze_color sample_cv st0 blue_img full_mask 4 None))
       = spec_statistics (flat_hue sample_cv blue_img full_mask)"
proof -
  have h: "\<not> isl (fst (analyze_color sample_cv st0 blue_img full_mask 4 None))"
    by (simp add: run_blue)
  from statistics_of_unquantized_hue [OF h] h show ?thesis by simp
qed

text \<open>
  C2 as stated fails: with 4 bins the quantized hue of the blue pixel is 1, and the
  returned median is 120, not 1.
\<close>

theorem statistics_not_of_quantized_hue:
  "returned_statistics (fst (analyze_color sample_cv st0 blue_img full_mask 4 None))
     = [VStat (CircMean [120] 180), VStat (CircStd [120] 180), VStat (Float 120)]
   \<and> spec_statistics (quantized_hue sample_cv blue_img full_mask 4)
     = [VStat (CircMean [1] 180), VStat (CircStd [1] 180), VStat (Float 1)]
   \<and> returned_statistics (fst (analyze_color sample_cv st0 blue_img full_mask 4 None))
     \<noteq> spec_statistics (quantized_hue sample_cv blue_img full_mask 4)"
proof -
  have a: "returned_statistics (fst (analyze_color sample_cv st0 blue_img full_mask 4 None))
     = [VStat (CircMean [120] 180), VStat (CircStd [120] 180), VStat (Float 120)]"
    by (simp add: run_blue returned_statistics_def)
  have b: "spec_statistics (quantized_hue sample_cv blue_img full_mask 4)
     = [VStat (CircMean [1] 180), VStat (CircStd [1] 180), VStat (Float 1)]"
    by code_simp
  show ?thesis by (simp add: a b)
qed

text \<open>
  C3, as amended. When the hue channel contains only the value 0, the routine raises no
  error on that account: the sequence of hue observations is empty, and a call that gets
  through channel extraction, with at least 2 bins and an accepted plot type, returns;
  its circular mean and standard deviation are those of the empty sequence and its
  median is \<open>nan\<close>.
\<close>

theorem zero_hue_returns:
  assumes "\<not> isl (split_channels cv rgb_img msk)"
    and "set (flat_hue cv rgb_img msk) \<subseteq> {0}"
    and "2 \<le> bins" and "\<not> bad_plot_type hist_plot_type"
  shows "temp_hue_list_hsv (flat_hue cv rgb_img msk) = Inr []
     \<and> \<not> isl (fst (analyze_color cv st rgb_img msk bins hist_plot_type))
     \<and> returned_statistics (fst (analyze_color cv st rgb_img msk bins hist_plot_type))
         = [VStat (CircMean [] 180), VStat (CircStd [] 180), VStat NaN]"
proof -
  obtain raw where raw: "split_channels cv rgb_img msk = Inr raw"
    using assms(1) not_isl_obtain by blast
  have "filter (\<lambda>x. x \<noteq> 0) (raw H) = []"
    using assms(2) by (auto simp: flat_hue_def raw filter_empty_conv)
  then have e: "spec_hue_sequence (raw H) = []"
    by (simp add: spec_hue_sequence_sort)
  show ?thesis
    by (simp add: analyze_color_ok [OF raw assms(3,4)] returned_statistics_finish finish_not_isl
        temp_hue_list_hsv_spec flat_hue_def raw e statistics_def median_def)
qed

text \<open>A black and a white pixel, both of hue 0.\<close>

theorem zero_hue_returns_witness:
  "\<not> isl (split_channels sample_cv dark_img pair_mask)
   \<and> set (flat_hue sample_cv dark_img pair_mask) \<subseteq> {0}
   \<and> (2::int) \<le> 4 \<and> \<not> bad_plot_type None
   \<and> \<not> isl (fst (analyze_color sample_cv st0 dark_img pair_mask 4 None))
   \<and> returned_statistics (fst (analyze_color sample_cv st0 dark_img pair_mask 4 None))
       = [VStat (CircMean [] 180), VStat (CircStd [] 180), VStat NaN]"
proof -
  have h1: "\<not> isl (split_channels sample_cv dark_img pair_mask)"
    by (rule dark_extraction)
  have h2: "set (flat_hue sample_cv dark_img pair_mask) \<subseteq> {0}"
    by code_simp
  have h3: "(2::int) \<le> 4" by simp
  have h4: "\<not> bad_plot_type None" by (rule bad_plot_type_None)
  from zero_hue_returns [OF h1 h2 h3 h4, of st0] h1 h2 h4 show ?thesis by simp
qed

text \<open>
  C3 as stated fails: on that input the call returns a result, with the statistics of
  the empty sequence, where the claim has it raise.
\<close>

theorem zero_hue_raises_nothing:
  "flat_hue sample_cv dark_img pair_mask = [0, 0]
   \<and> fst (analyze_color sample_cv st0 dark_img pair_mask 4 None) =
       Inr (color_header,
            [VStr ''COLOR_DATA'', VInt 4, VInts [0, 1, 2, 3],
             VHist [1, 0, 0, 0], VHist [1, 0, 0, 0], VHist [1, 0, 0, 0],
             VHist [1, 0, 0, 0], VHist [0, 0, 2, 0], VHist [0, 0, 2, 0],
             VHist [2, 0, 0, 0], VHist [2, 0, 0, 0], VHist [1, 0, 0, 0],
             VStat (CircMean [] 180), VStat (CircStd [] 180), VStat NaN],
            [])"
proof -
  have "flat_hue sample_cv dark_img pair_mask = [0, 0]"
    by code_simp
  then show ?thesis by (simp add: run_dark)
qed




text \<open>
  C5. On every successful call the header list and the value list have 15 elements
  each; the list of plot artifacts is empty when \<open>hist_plot_type\<close> is \<open>None\<close> and
  has exactly one element otherwise (the call succeeds only for a valid plot type).
\<close>

theorem result_sizes:
  assumes "fst (analyze_color cv st rgb_img msk bins hist_plot_type) = Inr (hdr, data, imgs)"
  shows "length hdr = 15 \<and> length data = 15
         \<and> (hist_plot_type = None \<longrightarrow> imgs = [])
         \<and> (hist_plot_type \<noteq> None \<longrightarrow> length imgs = 1)"
proof -
  obtain raw where raw: "split_channels cv rgb_img msk = Inr raw" and b: "2 \<le> bins"
    and t: "\<not> bad_plot_type hist_plot_type"
    using analyze_color_Inr [OF assms] by blast
  from assms have
    "hdr = color_header"
    "data = color_data bins [0..bins - 1] (\<lambda>c. hist_of (norm_channels bins raw c) (elems msk) bins)
             (statistics (spec_hue_sequence (raw H)))"
    "imgs = make_plots hist_plot_type
              (dataset (\<lambda>c. hist_of (norm_channels bins raw c) (elems msk) bins)) [0..bins - 1] bins"
    by (simp_all add: analyze_color_ok [OF raw b t] finish_def Let_def)
  then show ?thesis
    using t by (cases hist_plot_type)
      (simp_all add: color_header_def color_data_def make_plots_None make_plots_Some)
qed

text \<open>A call with plot type \<open>"rgb"\<close>: one figure, of the blue, green and red histograms.\<close>

theorem result_sizes_witness:
  "fst (analyze_color sample_cv st0 leaf_img pair_mask 4 (Some ''rgb'')) =
     Inr (color_header,
          [VStr ''COLOR_DATA'', VInt 4, VInts [0, 1, 2, 3],
           VHist [1, 0, 0, 0], VHist [1, 0, 0, 0], VHist [2, 0, 0, 0],
           VHist [0, 1, 0, 0], VHist [1, 0, 0, 0], VHist [1, 0, 0, 0],
           VHist [1, 1, 0, 0], VHist [0, 0, 0, 0], VHist [0, 0, 0, 0],
           VStat (CircMean [60, 120] 180), VStat (CircStd [60, 120] 180), VStat (Float 90)],
          [\<lparr>series = [(''blue'', [1, 0, 0, 0]), (''green'', [1, 0, 0, 0]), (''red'', [2, 0, 0, 0])],
            bin_axis = [0, 1, 2, 3], x_breaks = [0],
            colors = [''blue'', ''green'', ''red'']\<rparr>])
   \<and> length color_header = 15"
  using result_sizes [OF run_leaf_rgb] run_leaf_rgb by simp

text \<open>
  C6. An image array of fewer than 3 dimensions makes the call fail with
  \<open>InvalidInput\<close> and the message that the image must be an RGB image; an image of 3
  (or more) dimensions never gets that error.
\<close>

theorem dimensionality_check:
  "(length (shape rgb_img) < 3 \<longrightarrow>
      fst (analyze_color cv st rgb_img msk bins hist_plot_type)
        = Inl (InvalidInput ''rgb_img must be an RGB image''))
   \<and> (3 \<le> length (shape rgb_img) \<longrightarrow>
      (\<forall>m. fst (analyze_color cv st rgb_img msk bins hist_plot_type) \<noteq> Inl (InvalidInput m)))"
  by (auto simp: analyze_color_def Let_def hue_statistics_eq
      dest: split_channels_error histograms_error split: sum.splits)

text \<open>A 2 by 2 grey image is refused; a 1 by 2 colour image passes the check.\<close>

theorem dimensionality_check_witness:
  "length (shape gray_img) < 3
   \<and> fst (analyze_color sample_cv st0 gray_img full_mask 4 None)
       = Inl (InvalidInput ''rgb_img must be an RGB image'')
   \<and> 3 \<le> length (shape leaf_img)
   \<and> fst (analyze_color sample_cv st0 leaf_img pair_mask 4 None)
       \<noteq> Inl (InvalidInput ''rgb_img must be an RGB image'')"
proof -
  have h1: "length (shape gray_img) < 3" by (simp add: gray_img_def)
  have h2: "3 \<le> length (shape leaf_img)" by (simp add: leaf_img_def)
  from dimensionality_check [of gray_img sample_cv st0 full_mask 4 None]
    dimensionality_check [of leaf_img sample_cv st0 pair_mask 4 None] h1 h2
  show ?thesis by simp
qed

text \<open>
  C7. A call that fails, in particular one that fails the dimensionality check or the
  plot-type check, leaves the shared output store as it was: the measurements are the
  same map and the image list is the same list. Of the whole state only the device
  counter has changed.
\<close>

theorem failed_call_leaves_store:
  assumes "analyze_color cv st rgb_img msk bins hist_plot_type = (Inl e, st')"
  shows "measurements st' = measurements st \<and> images st' = images st
         \<and> st' = st\<lparr>device := device st + 1\<rparr>"
proof -
  have "fst (analyze_color cv st rgb_img msk bins hist_plot_type) = Inl e"
    and "snd (analyze_color cv st rgb_img msk bins hist_plot_type) = st'"
    using assms by simp_all
  with analyze_color_error_state [of cv st rgb_img msk bins hist_plot_type e]
  show ?thesis by auto
qed

text \<open>The refused grey image, on a store that holds a field of another category.\<close>

theorem failed_call_leaves_store_witness:
  "analyze_color sample_cv st0 gray_img full_mask 4 (Some ''rgb'')
     = (Inl (InvalidInput ''rgb_img must be an RGB image''),
        snd (analyze_color sample_cv st0 gray_img full_mask 4 (Some ''rgb'')))
   \<and> measurements (snd (analyze_color sample_cv st0 gray_img full_mask 4 (Some ''rgb'')))
       = measurements st0
   \<and> images (snd (analyze_color sample_cv st0 gray_img full_mask 4 (Some ''rgb''))) = images st0"
proof -
  have h: "analyze_color sample_cv st0 gray_img full_mask 4 (Some ''rgb'')
     = (Inl (InvalidInput ''rgb_img must be an RGB image''),
        snd (analyze_color sample_cv st0 gray_img full_mask 4 (Some ''rgb'')))"
    using run_gray by (simp add: prod_eq_iff)
  from failed_call_leaves_store [OF h] h show ?thesis by simp
qed

text \<open>
  C8. A successful call changes the measurements under the category \<open>"color_data"\<close>
  only: every other category is as before; under \<open>"color_data"\<close> each of the 14
  field names holds the value this call returned for it, whatever was stored before, and
  every other field name holds what it held; the list of this call's plot artifacts is
  appended, as one entry, to the image list.
\<close>

theorem store_frame:
  assumes "analyze_color cv st rgb_img msk bins hist_plot_type = (Inr (hdr, data, imgs), st')"
  shows "(\<forall>c. c \<noteq> ''color_data'' \<longrightarrow> measurements st' c = measurements st c)
     \<and> (\<exists>cd. measurements st' ''color_data'' = Some cd
           \<and> map cd store_keys = map Some (tl data)
           \<and> (\<forall>k. k \<notin> set store_keys \<longrightarrow>
                 cd k = (case measurements st ''color_data'' of None \<Rightarrow> None | Some old \<Rightarrow> old k)))
     \<and> images st' = images st @ [imgs]"
proof -
  have "fst (analyze_color cv st rgb_img msk bins hist_plot_type) = Inr (hdr, data, imgs)"
    using assms by simp
  then obtain raw where raw: "split_channels cv rgb_img msk = Inr raw" and b: "2 \<le> bins"
    and t: "\<not> bad_plot_type hist_plot_type"
    using analyze_color_Inr by blast
  let ?hist = "\<lambda>c. hist_of (norm_channels bins raw c) (elems msk) bins"
  let ?stats = "statistics (spec_hue_sequence (raw H))"
  let ?flds = "color_fields bins [0..bins - 1] ?hist ?stats"
  let ?old = "case measurements st ''color_data'' of None \<Rightarrow> Map.empty | Some cd \<Rightarrow> cd"
  from assms have data: "data = color_data bins [0..bins - 1] ?hist ?stats"
    and ms: "measurements st' = store_measurements ?flds (measurements st)"
    and im: "images st' = images st @ [imgs]"
    by (auto simp: analyze_color_ok [OF raw b t] finish_def Let_def
        debug_output_measurements debug_output_images)
  have flds: "?flds = zip store_keys (tl data)"
    by (simp add: data color_fields_zip)
  have len: "length (tl data) = length store_keys"
    by (simp add: data length_color_data length_store_keys)
  have keys: "map fst ?flds = store_keys"
    using len by (simp add: flds)
  have d: "distinct (map fst ?flds)"
    by (simp add: keys distinct_store_keys)
  have "map (fold assign ?flds ?old) store_keys = map Some (tl data)"
  proof (rule nth_equalityI)
    show "length (map (fold assign ?flds ?old) store_keys) = length (map Some (tl data))"
      using len by simp
  next
    fix i
    assume "i < length (map (fold assign ?flds ?old) store_keys)"
    then have i: "i < length store_keys" by simp
    then have "(store_keys ! i, tl data ! i) \<in> set ?flds"
      using len unfolding flds by (metis in_set_zip fst_conv snd_conv)
    from fold_assign_in [OF d this] i len
    show "map (fold assign ?flds ?old) store_keys ! i = map Some (tl data) ! i"
      by simp
  qed
  moreover have "fold assign ?flds ?old k = ?old k" if "k \<notin> set store_keys" for k
  proof -
    have "fst ` set ?flds = set store_keys"
      using keys by (metis set_map)
    with that show ?thesis by (simp add: fold_assign_notin)
  qed
  ultimately show ?thesis
    using im by (auto simp: ms store_measurements_other store_measurements_color_data
        split: option.splits)
qed

text \<open>
  A call with plot type \<open>"Hsv"\<close> on a store that holds the field \<open>"area"\<close> under
  \<open>"shape_data"\<close>: that category is untouched, and the one-figure list is the new last
  entry of the image list.
\<close>

theorem store_frame_witness:
  "analyze_color sample_cv st0 leaf_img pair_mask 2 (Some ''Hsv'') =
     (Inr (color_header,
          [VStr ''COLOR_DATA'', VInt 2, VInts [0, 1],
           VHist [1, 0], VHist [1, 0], VHist [2, 0],
           VHist [1, 0], VHist [1, 0], VHist [1, 0],
           VHist [2, 0], VHist [0, 0], VHist [0, 0],
           VStat (CircMean [60, 120] 180), VStat (CircStd [60, 120] 180), VStat (Float 90)],
          [\<lparr>series = [(''hue'', [2, 0]), (''saturation'', [0, 0]), (''value'', [0, 0])],
            bin_axis = [0, 1], x_breaks = [0],
            colors = [''blueviolet'', ''cyan'', ''orange'']\<rparr>]),
      snd (analyze_color sample_cv st0 leaf_img pair_mask 2 (Some ''Hsv'')))
   \<and> measurements (snd (analyze_color sample_cv st0 leaf_img pair_mask 2 (Some ''Hsv''))) ''shape_data''
       = measurements st0 ''shape_data''
   \<and> images (snd (analyze_color sample_cv st0 leaf_img pair_mask 2 (Some ''Hsv'')))
       = images st0 @
         [[\<lparr>series = [(''hue'', [2, 0]), (''saturation'', [0, 0]), (''value'', [0, 0])],
            bin_axis = [0, 1], x_breaks = [0],
            colors = [''blueviolet'', ''cyan'', ''orange'']\<rparr>]]"
proof -
  have h: "analyze_color sample_cv st0 leaf_img pair_mask 2 (Some ''Hsv'') =
     (Inr (color_header,
          [VStr ''COLOR_DATA'', VInt 2, VInts [0, 1],
           VHist [1, 0], VHist [1, 0], VHist [2, 0],
           VHist [1, 0], VHist [1, 0], VHist [1, 0],
           VHist [2, 0], VHist [0, 0], VHist [0, 0],
           VStat (CircMean [60, 120] 180), VStat (CircStd [60, 120] 180), VStat (Float 90)],
          [\<lparr>series = [(''hue'', [2, 0]), (''saturation'', [0, 0]), (''value'', [0, 0])],
            bin_axis = [0, 1], x_breaks = [0],
            colors = [''blueviolet'', ''cyan'', ''orange'']\<rparr>]),
      snd (analyze_color sample_cv st0 leaf_img pair_mask 2 (Some ''Hsv'')))"
    using run_leaf_hsv by (simp add: prod_eq_iff)
  from store_frame [OF h] h show ?thesis by simp
qed

text \<open>
  C9. When the hue channel that reaches the statistics contains no 0, deleting key 0
  from the counter does not fail and leaves the counter as it is; the sequence of hue
  observations is the whole channel in increasing order, none discarded, and a call that
  got through channel extraction, with at least 2 bins and an accepted plot type,
  returns the statistics of that sequence.
\<close>

theorem no_background_hue:
  assumes "\<not> isl (split_channels cv rgb_img msk)"
    and "0 \<notin> set (flat_hue cv rgb_img msk)"
    and "2 \<le> bins" and "\<not> bad_plot_type hist_plot_type"
  shows "Counter_delitem 0 (Counter (flat_hue cv rgb_img msk)) = Inr (Counter (flat_hue cv rgb_img msk))
     \<and> temp_hue_list_hsv (flat_hue cv rgb_img msk) = Inr (sort (flat_hue cv rgb_img msk))
     \<and> mset (sort (flat_hue cv rgb_img msk)) = mset (flat_hue cv rgb_img msk)
     \<and> \<not> isl (fst (analyze_color cv st rgb_img msk bins hist_plot_type))
     \<and> returned_statistics (fst (analyze_color cv st rgb_img msk bins hist_plot_type))
         = [VStat (CircMean (sort (flat_hue cv rgb_img msk)) 180),
            VStat (CircStd (sort (flat_hue cv rgb_img msk)) 180),
            VStat (median (sort (flat_hue cv rgb_img msk)))]"
proof -
  obtain raw where raw: "split_channels cv rgb_img msk = Inr raw"
    using assms(1) not_isl_obtain by blast
  have h: "flat_hue cv rgb_img msk = raw H"
    by (simp add: flat_hue_def raw)
  have z: "0 \<notin> set (raw H)"
    using assms(2) h by simp
  then have "0 \<notin> fst ` set (Counter (raw H))"
    by (simp add: Counter_keys)
  then have "filter (\<lambda>kv. fst kv \<noteq> 0) (Counter (raw H)) = Counter (raw H)"
    by (auto simp: filter_id_conv)
  then have del: "Counter_delitem 0 (Counter (raw H)) = Inr (Counter (raw H))"
    by (simp add: Counter_delitem_eq)
  have "filter (\<lambda>x. x \<noteq> 0) (raw H) = raw H"
    using z by (auto simp: filter_id_conv)
  then have e: "spec_hue_sequence (raw H) = sort (raw H)"
    by (simp add: spec_hue_sequence_sort)
  show ?thesis
    by (simp add: analyze_color_ok [OF raw assms(3,4)] returned_statistics_finish finish_not_isl
        temp_hue_list_hsv_spec h e del statistics_def)
qed

text \<open>A blue and a green pixel, both masked in: hue values 120 and 60.\<close>

theorem no_background_hue_witness:
  "\<not> isl (split_channels sample_cv leaf_img pair_mask)
   \<and> 0 \<notin> set (flat_hue sample_cv leaf_img pair_mask)
   \<and> (2::int) \<le> 4 \<and> \<not> bad_plot_type None
   \<and> temp_hue_list_hsv (flat_hue sample_cv leaf_img pair_mask)
       = Inr (sort (flat_hue sample_cv leaf_img pair_mask))
   \<and> \<not> isl (fst (analyze_color sample_cv st0 leaf_img pair_mask 4 None))"
proof -
  have h1: "\<not> isl (split_channels sample_cv leaf_img pair_mask)"
    by (rule leaf_extraction)
  have h2: "0 \<notin> set (flat_hue sample_cv leaf_img pair_mask)"
    by code_simp
  have h3: "(2::int) \<le> 4" by simp
  have h4: "\<not> bad_plot_type None" by (rule bad_plot_type_None)
  from no_background_hue [OF h1 h2 h3 h4, of st0] h1 h2 h4 show ?thesis by simp
qed

text \<open>
  C10. Every call, whatever its outcome, leaves the device counter exactly one higher:
  the increment is the first statement of the routine, before every check, so a call
  that fails the dimensionality check or the plot-type check has made it too.
\<close>

theorem device_incremented:
  "device (snd (analyze_color cv st rgb_img msk bins hist_plot_type)) = device st + 1"
  by (simp add: analyze_color_def Let_def debug_output_device split: sum.splits)

end
